theory Spec2Isabelle
  imports Main
begin

section \<open>Component Migration Helper: the plugin core of \<^verbatim>\<open>code.ts\<close>\<close>

text \<open>
  The plugin core is one TypeScript file. Its functions read the host's scene graph,
  import components, build comparison frames and talk to the presentation layer by
  messages. The embedding keeps the source's names. In the optional fields of a node
  and in \<^verbatim>\<open>figma.fileKey\<close>, JavaScript's \<^verbatim>\<open>null\<close> and \<^verbatim>\<open>undefined\<close> are the one
  value \<open>None\<close>: every test the source makes on them is a truthiness test or an
  optional chain, which do not tell them apart. In stored data and in the messages
  posted they are the two values \<open>JNull\<close> and \<open>JUndefined\<close>. A string is truthy when
  it is not empty.

  The repository holds a second version of the file and the compiled output of both.
  They lay a pair block out differently and one adds a command that inserts components;
  the functions and the control flow embedded here are the same in all of them.
\<close>

subsection \<open>Strings\<close>

text \<open>\<^verbatim>\<open>s.includes(c)\<close> for a one-character needle.\<close>

definition str_includes :: "string \<Rightarrow> char \<Rightarrow> bool" where
  "str_includes s c = (c \<in> set s)"

text \<open>\<^verbatim>\<open>parts.join(sep)\<close>.\<close>

fun join :: "string \<Rightarrow> string list \<Rightarrow> string" where
  "join sep [] = []"
| "join sep [x] = x"
| "join sep (x # y # ys) = x @ sep @ join sep (y # ys)"

text \<open>\<^verbatim>\<open>a || b\<close> on strings: the left operand unless it is empty.\<close>

definition or_else :: "string \<Rightarrow> string \<Rightarrow> string" where
  "or_else a b = (if a \<noteq> [] then a else b)"

subsection \<open>Scene nodes as the name resolver reads them\<close>

text \<open>
  A \<^verbatim>\<open>SceneNode\<close> is duck-typed: one object carries \<^verbatim>\<open>type\<close>, \<^verbatim>\<open>id\<close>,
  \<^verbatim>\<open>name\<close> and, depending on the type, \<^verbatim>\<open>key\<close>, \<^verbatim>\<open>parent\<close>,
  \<^verbatim>\<open>mainComponent\<close> and \<^verbatim>\<open>variantProperties\<close>. The object
  \<^verbatim>\<open>variantProperties\<close> is the list of its entries in the order of
  \<^verbatim>\<open>Object.keys\<close>; \<open>None\<close> is a missing or null field.
\<close>

datatype node_type = COMPONENT | INSTANCE | COMPONENT_SET | FRAME | GROUP | TEXT | RECTANGLE

datatype scene_node =
  SceneNode
    (ntype: node_type)
    (node_id: string)
    (name: string)
    (key: string)
    (parent: "scene_node option")
    (mainComponent: "scene_node option")
    (variantProperties: "(string \<times> string) list option")

subsection \<open>Key formatting\<close>

text \<open>
  \<^verbatim>\<open>formatComponentKey\<close>; the ambient \<^verbatim>\<open>figma.fileKey\<close>
  (\<^verbatim>\<open>string | undefined\<close>) is the first argument.
\<close>

definition formatComponentKey :: "string option \<Rightarrow> string \<Rightarrow> string" where
  "formatComponentKey fileKey k =
     (if str_includes k (CHR '':'') then k
      else case fileKey of
             Some fk \<Rightarrow> if fk \<noteq> [] then fk @ '':'' @ k else k
           | None \<Rightarrow> k)"

subsection \<open>Name resolver\<close>

text \<open>
  \<^verbatim>\<open>getComponentKey\<close>. For an instance, \<^verbatim>\<open>node.mainComponent?.id\<close> must be
  truthy, and the result is \<^verbatim>\<open>node.mainComponent?.key || null\<close>.
\<close>

definition getComponentKey :: "scene_node \<Rightarrow> string option" where
  "getComponentKey node =
     (if ntype node = COMPONENT then Some (key node)
      else if ntype node = INSTANCE then
        (case mainComponent node of
           None \<Rightarrow> None
         | Some mc \<Rightarrow>
             if node_id mc \<noteq> [] then (if key mc \<noteq> [] then Some (key mc) else None)
             else None)
      else None)"

text \<open>
  \<^verbatim>\<open>getComponentName\<close>, in the three stages of the source. \<open>displayName\<close> is
  the local \<^verbatim>\<open>name\<close> after the instance test; \<open>baseName\<close> is
  \<^verbatim>\<open>name\<close> after the test for \<^verbatim>\<open>=\<close>; \<open>variantProps\<close> is the local of that name.
\<close>

definition displayName :: "scene_node \<Rightarrow> string" where
  "displayName node =
     (if ntype node = INSTANCE then
        (case mainComponent node of Some mc \<Rightarrow> name mc | None \<Rightarrow> name node)
      else name node)"

text \<open>\<^verbatim>\<open>n?.parent?.type === 'COMPONENT_SET'\<close> on an optional node.\<close>

definition parentIsComponentSet :: "scene_node option \<Rightarrow> bool" where
  "parentIsComponentSet n =
     (case n of
        None \<Rightarrow> False
      | Some m \<Rightarrow> (case parent m of None \<Rightarrow> False | Some p \<Rightarrow> ntype p = COMPONENT_SET))"

text \<open>\<^verbatim>\<open>n.parent.name\<close>, read only where \<open>parentIsComponentSet\<close> holds.\<close>

definition parentName :: "scene_node option \<Rightarrow> string \<Rightarrow> string" where
  "parentName n dflt =
     (case n of
        None \<Rightarrow> dflt
      | Some m \<Rightarrow> (case parent m of None \<Rightarrow> dflt | Some p \<Rightarrow> name p))"

definition baseName :: "scene_node \<Rightarrow> string" where
  "baseName node =
     (let nm = displayName node in
      if str_includes nm (CHR ''='') then
        (if ntype node = INSTANCE \<and> parentIsComponentSet (mainComponent node)
           then parentName (mainComponent node) nm
         else if ntype node = COMPONENT \<and> parentIsComponentSet (Some node)
           then parentName (Some node) nm
         else nm)
      else nm)"

definition variantProps :: "scene_node \<Rightarrow> string" where
  "variantProps node =
     (case variantProperties node of
        None \<Rightarrow> []
      | Some vp \<Rightarrow>
          (let props = join '', '' (map (\<lambda>(k, v). k @ ''='' @ v) vp)
           in if props \<noteq> [] then props else []))"

text \<open>The returned \<^verbatim>\<open>variantProps ? `${name}|${variantProps}` : name\<close>.\<close>

definition withVariantProps :: "string \<Rightarrow> scene_node \<Rightarrow> string" where
  "withVariantProps nm node =
     (if variantProps node \<noteq> [] then nm @ ''|'' @ variantProps node else nm)"

definition getComponentName :: "scene_node \<Rightarrow> string" where
  "getComponentName node =
     (if ntype node = COMPONENT \<or> ntype node = INSTANCE then
        withVariantProps (baseName node) node
      else name node)"

subsection \<open>Messages to the presentation layer\<close>

datatype json =
    JUndefined
  | JNull
  | JBool bool
  | JNum int
  | JStr string
  | JArr "json list"
  | JObj "(string \<times> json) list"

text \<open>
  The objects handed to \<^verbatim>\<open>figma.ui.postMessage\<close>, one constructor per
  \<^verbatim>\<open>type\<close> and shape: \<open>KeyCopied success key error\<close>,
  \<open>Message text variant timeout\<close>, \<open>LoadedMappings data\<close>.
\<close>

datatype ui_message =
    KeyCopied bool "string option" "string option"
  | Message string string nat
  | LoadedMappings json

subsection \<open>The host, its state, and programs that may throw\<close>

text \<open>
  A node of the canvas as the generator builds it: a frame with its name and children, a
  text with its characters, an instance of the component with a given key. Nodes are
  values: the source appends every node to its parent after its last change, and keeps
  the root frame in the local \<^verbatim>\<open>frame\<close> until it selects it, so the value appended
  is the node the canvas shows. Assignments of layout, spacing, colour and font to a
  node carry nothing the properties below read and are left out.
\<close>

datatype node =
    FrameNode string "node list"
  | TextNode string
  | InstanceNode string

text \<open>\<^verbatim>\<open>n.name = v\<close> and \<^verbatim>\<open>n.characters = v\<close>.\<close>

fun setName :: "node \<Rightarrow> string \<Rightarrow> node" where
  "setName (FrameNode nm cs) v = FrameNode v cs"
| "setName n v = n"

fun setCharacters :: "node \<Rightarrow> string \<Rightarrow> node" where
  "setCharacters (TextNode cs) v = TextNode v"
| "setCharacters n v = n"

text \<open>
  What \<^verbatim>\<open>figma.importComponentByKeyAsync\<close> does with a key: the promise rejects, or
  resolves to a component (or to a falsy value, which the source guards against). A
  component's \<^verbatim>\<open>createInstance\<close> throws when it is not \<open>instantiable\<close>.
\<close>

record component =
  comp_key :: string
  instantiable :: bool

datatype import_result = Rejected | Resolved "component option"

text \<open>
  The host: \<^verbatim>\<open>figma.fileKey\<close>, the component catalogue, and which of the other host
  calls of a run throw, by their position in the run (\<open>throws h n\<close>: the call made
  after \<open>n\<close> earlier ones throws).
\<close>

record host =
  fileKey :: "string option"
  catalog :: "string \<Rightarrow> import_result"
  throws :: "nat \<Rightarrow> bool"

text \<open>
  The state the plugin's calls change: the number of host calls made, the number of
  nodes the host created on the page, the loaded font styles, the page's selection,
  the nodes last scrolled into view, the messages posted to the presentation layer,
  client storage, and the clock \<^verbatim>\<open>Date.now()\<close> reads.
\<close>

record figma_state =
  calls :: nat
  created :: nat
  loadedFonts :: "string list"
  selection :: "node list"
  viewport :: "node list"
  posted :: "ui_message list"
  storage :: "string \<Rightarrow> json option"
  clock :: int

datatype 'a outcome = Returned 'a | Threw

type_synonym 'a prog = "figma_state \<Rightarrow> 'a outcome \<times> figma_state"

definition ret :: "'a \<Rightarrow> 'a prog" where
  "ret v s = (Returned v, s)"

text \<open>\<open>bnd m f\<close>: run \<open>m\<close>, then \<open>f\<close> on its value; an exception of \<open>m\<close> skips \<open>f\<close>.\<close>

definition bnd :: "'a prog \<Rightarrow> ('a \<Rightarrow> 'b prog) \<Rightarrow> 'b prog" where
  "bnd m f s = (case m s of (Returned v, s') \<Rightarrow> f v s' | (Threw, s') \<Rightarrow> (Threw, s'))"

text \<open>
  \<^verbatim>\<open>try { body } catch (err) { handler }\<close>. The source's handlers only log
  \<^verbatim>\<open>err\<close>, so an exception carries no value. \<^verbatim>\<open>console.log\<close> and
  \<^verbatim>\<open>console.error\<close> change nothing of the state and are left out.
\<close>

definition try_catch :: "'a prog \<Rightarrow> 'a prog \<Rightarrow> 'a prog" where
  "try_catch body handler s =
     (case body s of (Returned v, s') \<Rightarrow> (Returned v, s') | (Threw, s') \<Rightarrow> handler s')"

text \<open>A host call that counts in the run: it throws, or returns \<open>v\<close> and changes the state.\<close>

definition hostCall :: "host \<Rightarrow> 'a \<Rightarrow> (figma_state \<Rightarrow> figma_state) \<Rightarrow> 'a prog" where
  "hostCall h v change s =
     (if throws h (calls s) then (Threw, s\<lparr>calls := Suc (calls s)\<rparr>)
      else (Returned v, change (s\<lparr>calls := Suc (calls s)\<rparr>)))"

definition loadFontAsync :: "host \<Rightarrow> string \<Rightarrow> unit prog" where
  "loadFontAsync h style = hostCall h () (\<lambda>s. s\<lparr>loadedFonts := loadedFonts s @ [style]\<rparr>)"

definition createFrame :: "host \<Rightarrow> node prog" where
  "createFrame h = hostCall h (FrameNode [] []) (\<lambda>s. s\<lparr>created := Suc (created s)\<rparr>)"

definition createText :: "host \<Rightarrow> node prog" where
  "createText h = hostCall h (TextNode []) (\<lambda>s. s\<lparr>created := Suc (created s)\<rparr>)"

text \<open>\<^verbatim>\<open>parent.appendChild(child)\<close>; the value is the parent with the child added last.\<close>

fun addChild :: "node \<Rightarrow> node \<Rightarrow> node" where
  "addChild (FrameNode nm cs) c = FrameNode nm (cs @ [c])"
| "addChild n c = n"

definition appendChild :: "host \<Rightarrow> node \<Rightarrow> node \<Rightarrow> node prog" where
  "appendChild h p c = hostCall h (addChild p c) (\<lambda>s. s)"

definition importComponentByKeyAsync :: "host \<Rightarrow> string \<Rightarrow> component option prog" where
  "importComponentByKeyAsync h k s =
     (case catalog h k of Rejected \<Rightarrow> (Threw, s) | Resolved c \<Rightarrow> (Returned c, s))"

definition createInstance :: "component \<Rightarrow> node prog" where
  "createInstance c s =
     (if instantiable c then (Returned (InstanceNode (comp_key c)), s\<lparr>created := Suc (created s)\<rparr>)
      else (Threw, s))"

definition setSelection :: "host \<Rightarrow> node list \<Rightarrow> unit prog" where
  "setSelection h ns = hostCall h () (\<lambda>s. s\<lparr>selection := ns\<rparr>)"

definition scrollAndZoomIntoView :: "host \<Rightarrow> node list \<Rightarrow> unit prog" where
  "scrollAndZoomIntoView h ns = hostCall h () (\<lambda>s. s\<lparr>viewport := ns\<rparr>)"

text \<open>\<^verbatim>\<open>figma.ui.postMessage\<close> hands the message over and does not throw.\<close>

definition postMessage :: "ui_message \<Rightarrow> unit prog" where
  "postMessage m s = (Returned (), s\<lparr>posted := posted s @ [m]\<rparr>)"

text \<open>
  \<^verbatim>\<open>figma.clientStorage.getAsync\<close> and \<^verbatim>\<open>setAsync\<close>. The read of a key under which
  nothing is stored resolves to \<^verbatim>\<open>undefined\<close>.
\<close>

definition getAsync :: "host \<Rightarrow> string \<Rightarrow> json prog" where
  "getAsync h k s =
     hostCall h (case storage s k of None \<Rightarrow> JUndefined | Some v \<Rightarrow> v) (\<lambda>s. s) s"

definition setAsync :: "host \<Rightarrow> string \<Rightarrow> json \<Rightarrow> unit prog" where
  "setAsync h k v = hostCall h () (\<lambda>s. s\<lparr>storage := (storage s)(k \<mapsto> v)\<rparr>)"

subsection \<open>Copying the selected key\<close>

text \<open>
  \<^verbatim>\<open>copySelectedComponentKey\<close>; the argument is
  \<^verbatim>\<open>figma.currentPage.selection\<close> as the name resolver reads it.
\<close>

definition copySelectedComponentKey :: "scene_node list \<Rightarrow> unit prog" where
  "copySelectedComponentKey sel =
     (case sel of
        [] \<Rightarrow> postMessage (KeyCopied False None (Some ''No component selected''))
      | first # _ \<Rightarrow>
          (case getComponentKey first of
             None \<Rightarrow> postMessage (KeyCopied False None (Some ''Selected node is not a component''))
           | Some componentKey \<Rightarrow>
               if componentKey = [] then
                 postMessage (KeyCopied False None (Some ''Selected node is not a component''))
               else postMessage (KeyCopied True (Some componentKey) None)))"

subsection \<open>Persistence\<close>

definition isArray :: "json \<Rightarrow> bool" where
  "isArray v = (case v of JArr xs \<Rightarrow> True | _ \<Rightarrow> False)"

definition saveMappings :: "host \<Rightarrow> json \<Rightarrow> unit prog" where
  "saveMappings h d = try_catch (setAsync h ''componentMigrationMappings'' d) (ret ())"

definition loadSavedMappings :: "host \<Rightarrow> unit prog" where
  "loadSavedMappings h =
     try_catch
       (bnd (getAsync h ''componentMigrationMappings'') (\<lambda>saved. (\<lambda>s.
          (let dataToSend =
                 (if isArray saved then
                    JObj [(''mappings'', saved),
                          (''timestamp'', JNum (clock s - 7 * 24 * 60 * 60 * 1000))]
                  else saved)
           in postMessage (LoadedMappings dataToSend)) s)))
       (postMessage (LoadedMappings JNull))"

subsection \<open>Visual comparison\<close>

record mapping =
  oldKey :: string
  newKey :: string
  oldName :: string
  newName :: string
  notes' :: string

text \<open>
  The source's texts outside ASCII, as their UTF-8 bytes: the arrows U+2192 and U+2193
  and the warning sign U+26A0 U+FE0F.
\<close>

definition rightArrow :: string where
  "rightArrow = [CHR 0xE2, CHR 0x86, CHR 0x92]"

definition downArrow :: string where
  "downArrow = [CHR 0xE2, CHR 0x86, CHR 0x93]"

definition notFoundText :: string where
  "notFoundText = [CHR 0xE2, CHR 0x9A, CHR 0xA0, CHR 0xEF, CHR 0xB8, CHR 0x8F] @ '' Component not found''"

text \<open>
  The two blocks \<^verbatim>\<open>try { ... importComponentByKeyAsync ... } catch (err) { ... }\<close> of the
  source are the same code up to the section and the key; \<open>tryInstance\<close> is that code.
  The handler adds the error marker and a line with the first 20 characters of the key.
\<close>

definition tryInstance :: "host \<Rightarrow> node \<Rightarrow> string \<Rightarrow> node prog" where
  "tryInstance h section k =
     try_catch
       (bnd (importComponentByKeyAsync h (formatComponentKey (fileKey h) k)) (\<lambda>comp.
          case comp of
            None \<Rightarrow> ret section
          | Some c \<Rightarrow> bnd (createInstance c) (\<lambda>inst. appendChild h section inst)))
       (bnd (createText h) (\<lambda>errorText.
        bnd (appendChild h section (setCharacters errorText notFoundText)) (\<lambda>section1.
        bnd (createText h) (\<lambda>debugText.
        appendChild h section1 (setCharacters debugText (''Key: '' @ take 20 k @ ''...''))))))"

text \<open>
  The OLD and the NEW section of the source are the same code up to the label, the
  title and the key: a frame named by the label, the label text, the title text, and
  the attempt to place an instance.
\<close>

definition buildSection :: "host \<Rightarrow> string \<Rightarrow> string \<Rightarrow> string \<Rightarrow> node prog" where
  "buildSection h label title k =
     bnd (createFrame h) (\<lambda>section0.
     bnd (createText h) (\<lambda>labelText.
     bnd (appendChild h (setName section0 label) (setCharacters labelText label)) (\<lambda>section1.
     bnd (createText h) (\<lambda>nameText.
     bnd (appendChild h section1 (setCharacters nameText title)) (\<lambda>section2.
     tryInstance h section2 k)))))"

text \<open>The body of the \<^verbatim>\<open>try\<close> inside the loop; its value is the root frame with the pair added.\<close>

definition buildPair :: "host \<Rightarrow> mapping \<Rightarrow> node \<Rightarrow> node prog" where
  "buildPair h m frame =
     bnd (createFrame h) (\<lambda>pairFrame0.
     bnd (buildSection h ''OLD'' (or_else (oldName m) (oldKey m)) (oldKey m)) (\<lambda>oldSection.
     bnd (appendChild h
            (setName pairFrame0
               (or_else (oldName m) ''Old'' @ '' '' @ rightArrow @ '' '' @ or_else (newName m) ''New''))
            oldSection) (\<lambda>pairFrame1.
     bnd (createText h) (\<lambda>arrowText.
     bnd (appendChild h pairFrame1 (setCharacters arrowText downArrow)) (\<lambda>pairFrame2.
     bnd (buildSection h ''NEW'' (or_else (newName m) (newKey m)) (newKey m)) (\<lambda>newSection.
     bnd (appendChild h pairFrame2 newSection) (\<lambda>pairFrame3.
     appendChild h frame pairFrame3)))))))"

text \<open>
  \<^verbatim>\<open>for (const mapping of mappings) { try { ... } catch (err) { hasErrors = true; } }\<close>
  on the locals \<^verbatim>\<open>frame\<close> and \<^verbatim>\<open>hasErrors\<close>.
\<close>

fun mappingsLoop :: "host \<Rightarrow> mapping list \<Rightarrow> node \<Rightarrow> bool \<Rightarrow> (node \<times> bool) prog" where
  "mappingsLoop h [] frame hasErrors = ret (frame, hasErrors)"
| "mappingsLoop h (m # ms) frame hasErrors =
     bnd (try_catch
            (bnd (buildPair h m frame) (\<lambda>frame'. ret (frame', hasErrors)))
            (ret (frame, True)))
         (\<lambda>(frame', hasErrors'). mappingsLoop h ms frame' hasErrors')"

definition successText :: string where
  "successText = ''Visual comparison created successfully!''"

definition warningText :: string where
  "warningText = ''Visual comparison created with some errors. Some components may not be available.''"

definition failureText :: string where
  "failureText = ''Failed to generate visual comparison''"

definition generateVisualComparison :: "host \<Rightarrow> mapping list \<Rightarrow> unit prog" where
  "generateVisualComparison h mappings =
     try_catch
       (bnd (loadFontAsync h ''Regular'') (\<lambda>_.
        bnd (loadFontAsync h ''Medium'') (\<lambda>_.
        bnd (loadFontAsync h ''Bold'') (\<lambda>_.
        bnd (createFrame h) (\<lambda>frame0.
        bnd (mappingsLoop h mappings (setName frame0 ''Component Migration Visual'') False)
          (\<lambda>(frame, hasErrors).
        bnd (setSelection h [frame]) (\<lambda>_.
        bnd (scrollAndZoomIntoView h [frame]) (\<lambda>_.
        postMessage
          (Message (if hasErrors then warningText else successText)
                   (if hasErrors then ''warning'' else ''info'') 3000)))))))))
       (postMessage (Message failureText ''error'' 3000))"

subsection \<open>Reading the generated frames\<close>

text \<open>
  The error marker is the text the handler of a failed import writes; a rendered
  instance is an instance node.
\<close>

fun isErrorMarker :: "node \<Rightarrow> bool" where
  "isErrorMarker (TextNode cs) = (cs = notFoundText)"
| "isErrorMarker n = False"

fun isInstance :: "node \<Rightarrow> bool" where
  "isInstance (InstanceNode k) = True"
| "isInstance n = False"

text \<open>
  The import-and-instantiate step of a key fails when the import rejects or the
  component's \<^verbatim>\<open>createInstance\<close> throws; it places an instance when both succeed.
\<close>

definition importFails :: "host \<Rightarrow> string \<Rightarrow> bool" where
  "importFails h k =
     (case catalog h (formatComponentKey (fileKey h) k) of
        Rejected \<Rightarrow> True
      | Resolved None \<Rightarrow> False
      | Resolved (Some c) \<Rightarrow> \<not> instantiable c)"

definition importPlaces :: "host \<Rightarrow> string \<Rightarrow> bool" where
  "importPlaces h k =
     (case catalog h (formatComponentKey (fileKey h) k) of
        Rejected \<Rightarrow> False
      | Resolved None \<Rightarrow> False
      | Resolved (Some c) \<Rightarrow> instantiable c)"

text \<open>
  The section and the pair block as a tree, for a run in which no host call other than
  an import or an instantiation throws.
\<close>

definition failureLines :: "string \<Rightarrow> node list" where
  "failureLines k = [TextNode notFoundText, TextNode (''Key: '' @ take 20 k @ ''...'')]"

definition importLines :: "host \<Rightarrow> string \<Rightarrow> node list" where
  "importLines h k =
     (case catalog h (formatComponentKey (fileKey h) k) of
        Rejected \<Rightarrow> failureLines k
      | Resolved None \<Rightarrow> []
      | Resolved (Some c) \<Rightarrow>
          if instantiable c then [InstanceNode (comp_key c)] else failureLines k)"

definition sectionTree :: "host \<Rightarrow> string \<Rightarrow> string \<Rightarrow> string \<Rightarrow> node" where
  "sectionTree h label title k =
     FrameNode label ([TextNode label, TextNode title] @ importLines h k)"

definition pairTree :: "host \<Rightarrow> mapping \<Rightarrow> node" where
  "pairTree h m =
     FrameNode (or_else (oldName m) ''Old'' @ '' '' @ rightArrow @ '' '' @ or_else (newName m) ''New'')
       [sectionTree h ''OLD'' (or_else (oldName m) (oldKey m)) (oldKey m),
        TextNode downArrow,
        sectionTree h ''NEW'' (or_else (newName m) (newKey m)) (newKey m)]"

subsection \<open>Example inputs\<close>

definition exComponentSet :: scene_node where
  "exComponentSet = SceneNode COMPONENT_SET ''1:1'' ''Button'' [] None None None"

definition exVariant :: scene_node where
  "exVariant =
     SceneNode COMPONENT ''1:2'' ''Size=Large, State=Hover'' ''c0ffee'' (Some exComponentSet) None
       (Some [(''a'', ''1''), (''b'', ''2'')])"

definition exPlain :: scene_node where
  "exPlain = SceneNode COMPONENT ''2:1'' ''Card'' ''beef01'' None None None"

definition exInstance :: scene_node where
  "exInstance = SceneNode INSTANCE ''3:1'' ''Card copy'' [] None (Some exPlain) None"

definition exVariantInstance :: scene_node where
  "exVariantInstance =
     SceneNode INSTANCE ''3:2'' ''my button'' [] None (Some exVariant) (Some [(''Size'', ''Large'')])"

definition exDetachedInstance :: scene_node where
  "exDetachedInstance = SceneNode INSTANCE ''3:3'' ''Orphan'' [] None None (Some [])"

definition exFrame :: scene_node where
  "exFrame = SceneNode FRAME ''4:1'' ''Hero'' [] None None None"

definition exKeylessComponent :: scene_node where
  "exKeylessComponent = SceneNode COMPONENT ''5:1'' ''Draft'' [] None None None"

definition exKeylessInstance :: scene_node where
  "exKeylessInstance = SceneNode INSTANCE ''5:2'' ''Draft copy'' [] None (Some exKeylessComponent) None"

definition exState :: figma_state where
  "exState =
     \<lparr>calls = 0, created = 0, loadedFonts = [], selection = [], viewport = [], posted = [],
      storage = (\<lambda>k. None), clock = 1700000000000\<rparr>"

text \<open>A host whose catalogue holds the one component \<^verbatim>\<open>GOOD\<close>, and where nothing else throws.\<close>

definition exHost :: host where
  "exHost =
     \<lparr>fileKey = None,
      catalog = (\<lambda>k. if k = ''GOOD'' then Resolved (Some \<lparr>comp_key = ''GOOD'', instantiable = True\<rparr>)
                     else Rejected),
      throws = (\<lambda>n. False)\<rparr>"

definition exMapping :: mapping where
  "exMapping = \<lparr>oldKey = ''BAD'', newKey = ''GOOD'', oldName = ''A'', newName = ''B'', notes' = []\<rparr>"

definition exMapping2 :: mapping where
  "exMapping2 = \<lparr>oldKey = ''GOOD'', newKey = ''GOOD'', oldName = [], newName = ''C'', notes' = ''keep''\<rparr>"

section \<open>Properties\<close>

subsection \<open>Auxiliary facts\<close>

lemma str_includes_simps:
  "str_includes [] c = False" "str_includes (x # xs) c = (x = c \<or> str_includes xs c)"
  by (auto simp: str_includes_def)

lemma join_entries_nonempty:
  "vp \<noteq> [] \<Longrightarrow> join sep (map (\<lambda>(k, v). k @ ''='' @ v) vp) \<noteq> []"
proof (cases vp)
  case Nil
  assume "vp \<noteq> []"
  with Nil show ?thesis by simp
next
  case (Cons e es)
  obtain k v where e: "e = (k, v)" by (cases e)
  show ?thesis
  proof (cases es)
    case Nil
    with Cons e show ?thesis by simp
  next
    case (Cons e' es')
    with \<open>vp = e # es\<close> e show ?thesis by simp
  qed
qed

text \<open>Sequencing and catching, read off the outcome and the state of the first part.\<close>

lemma bnd_fst:
  "bnd m f s = (case fst (m s) of Returned v \<Rightarrow> f v (snd (m s)) | Threw \<Rightarrow> (Threw, snd (m s)))"
  by (simp add: bnd_def split: prod.split outcome.split)

lemma try_catch_fst:
  "try_catch body handler s =
     (case fst (body s) of Returned v \<Rightarrow> (Returned v, snd (body s)) | Threw \<Rightarrow> handler (snd (body s)))"
  by (simp add: try_catch_def split: prod.split outcome.split)

text \<open>
  On a host where no call other than an import or an instantiation throws, every part
  of the generator returns, builds the tree named for it and posts nothing.
\<close>

lemma tryInstance_quiet:
  assumes "\<forall>n. \<not> throws h n"
  shows "fst (tryInstance h (FrameNode nm cs) k s) = Returned (FrameNode nm (cs @ importLines h k))"
    and "posted (snd (tryInstance h (FrameNode nm cs) k s)) = posted s"
  using assms
  by (simp_all add: tryInstance_def try_catch_def bnd_def ret_def importComponentByKeyAsync_def
        createInstance_def createText_def appendChild_def hostCall_def importLines_def
        failureLines_def
        split: import_result.split option.split)

lemma buildSection_quiet:
  assumes "\<forall>n. \<not> throws h n"
  shows "fst (buildSection h label title k s) = Returned (sectionTree h label title k)"
    and "posted (snd (buildSection h label title k s)) = posted s"
  using assms
  by (simp_all add: buildSection_def bnd_fst createFrame_def createText_def appendChild_def
        hostCall_def tryInstance_quiet sectionTree_def)

lemma buildPair_quiet:
  assumes "\<forall>n. \<not> throws h n"
  shows "fst (buildPair h m (FrameNode nm cs) s) = Returned (FrameNode nm (cs @ [pairTree h m]))"
    and "posted (snd (buildPair h m (FrameNode nm cs) s)) = posted s"
  using assms
  by (simp_all add: buildPair_def bnd_fst createFrame_def createText_def appendChild_def
        hostCall_def buildSection_quiet pairTree_def)

lemma mappingsLoop_quiet:
  assumes "\<forall>n. \<not> throws h n"
  shows "fst (mappingsLoop h ms (FrameNode nm cs) e s) =
           Returned (FrameNode nm (cs @ map (pairTree h) ms), e)
         \<and> posted (snd (mappingsLoop h ms (FrameNode nm cs) e s)) = posted s"
proof (induction ms arbitrary: cs s)
  case Nil
  show ?case by (simp add: ret_def)
next
  case (Cons m ms)
  show ?case
    by (simp add: bnd_fst try_catch_fst ret_def buildPair_quiet [OF assms] Cons.IH)
qed

text \<open>
  So the flag \<^verbatim>\<open>hasErrors\<close> stays false on such a host whatever the imports do, and
  the summary is the success text.
\<close>

lemma generateVisualComparison_quiet:
  assumes "\<forall>n. \<not> throws h n"
  shows "fst (generateVisualComparison h ms s) = Returned ()"
    and "selection (snd (generateVisualComparison h ms s)) =
           [FrameNode ''Component Migration Visual'' (map (pairTree h) ms)]"
    and "posted (snd (generateVisualComparison h ms s)) =
           posted s @ [Message successText ''info'' 3000]"
  using assms mappingsLoop_quiet [OF assms, of ms _ "[]" False]
  by (simp_all add: generateVisualComparison_def try_catch_fst bnd_fst loadFontAsync_def
        createFrame_def setSelection_def scrollAndZoomIntoView_def postMessage_def hostCall_def)

text \<open>
  On every host, whatever throws: no part of the loop posts a message, and the run
  returns to its caller having posted exactly one summary.
\<close>

lemma hostCall_posted:
  "(\<And>t. posted (change t) = posted t) \<Longrightarrow> posted (snd (hostCall h v change s)) = posted s"
  by (simp add: hostCall_def)

lemma bnd_posted:
  assumes "\<And>t. posted (snd (m t)) = posted t" and "\<And>v t. posted (snd (f v t)) = posted t"
  shows "posted (snd (bnd m f s)) = posted s"
  by (simp add: bnd_fst assms split: outcome.split)

lemma try_catch_posted:
  assumes "\<And>t. posted (snd (body t)) = posted t" and "\<And>t. posted (snd (handler t)) = posted t"
  shows "posted (snd (try_catch body handler s)) = posted s"
  by (simp add: try_catch_fst assms split: outcome.split)

lemma tryInstance_posted: "posted (snd (tryInstance h sec k s)) = posted s"
  by (simp add: tryInstance_def try_catch_posted bnd_posted hostCall_posted ret_def
        importComponentByKeyAsync_def createInstance_def createText_def appendChild_def
        split: import_result.split option.split)

lemma buildSection_posted: "posted (snd (buildSection h label title k s)) = posted s"
  by (simp add: buildSection_def bnd_posted hostCall_posted tryInstance_posted
        createFrame_def createText_def appendChild_def)

lemma buildPair_posted: "posted (snd (buildPair h m frame s)) = posted s"
  by (simp add: buildPair_def bnd_posted hostCall_posted buildSection_posted
        createFrame_def createText_def appendChild_def)

lemma mappingsLoop_posted: "posted (snd (mappingsLoop h ms frame e s)) = posted s"
proof (induction ms arbitrary: frame e s)
  case Nil
  show ?case by (simp add: ret_def)
next
  case (Cons m ms)
  show ?case
    by (simp add: bnd_fst try_catch_fst ret_def buildPair_posted Cons.IH
          split: outcome.split prod.split)
qed

lemma generateVisualComparison_returns:
  "\<exists>s' m. generateVisualComparison h ms s = (Returned (), s') \<and> posted s' = posted s @ [m] \<and>
     (m = Message successText ''info'' 3000 \<or> m = Message warningText ''warning'' 3000 \<or>
      m = Message failureText ''error'' 3000)"
proof -
  have "fst (generateVisualComparison h ms s) = Returned () \<and>
        (\<exists>m. posted (snd (generateVisualComparison h ms s)) = posted s @ [m] \<and>
          (m = Message successText ''info'' 3000 \<or> m = Message warningText ''warning'' 3000 \<or>
           m = Message failureText ''error'' 3000))"
    by (simp add: generateVisualComparison_def try_catch_fst bnd_fst loadFontAsync_def
          createFrame_def setSelection_def scrollAndZoomIntoView_def postMessage_def hostCall_def
          mappingsLoop_posted split: outcome.split prod.split)
  then show ?thesis
    by (metis prod.collapse)
qed

lemma importLines_markers:
  "length (filter isErrorMarker (importLines h k)) = of_bool (importFails h k)"
  by (simp add: importLines_def importFails_def failureLines_def notFoundText_def
        split: import_result.split option.split)

lemma importLines_instances:
  "length (filter isInstance (importLines h k)) = of_bool (importPlaces h k)"
  by (simp add: importLines_def importPlaces_def failureLines_def
        split: import_result.split option.split)

subsection \<open>The summary after a failed import\<close>

text \<open>
  Claim C1, at its own input: the one mapping from \<^verbatim>\<open>BAD\<close> to \<^verbatim>\<open>GOOD\<close>, where the
  import of \<^verbatim>\<open>BAD\<close> rejects, the import of \<^verbatim>\<open>GOOD\<close> succeeds and no other host call
  throws. The run returns and selects a root frame with exactly one pair block; its OLD
  section holds one error marker (and the line with the key), its NEW section one
  instance. The handler of the failed import does not set \<^verbatim>\<open>hasErrors\<close>, so the one
  message posted is the success text with variant \<^verbatim>\<open>info\<close>, not the warning.
\<close>

theorem generateVisualComparison_bad_good:
  "generateVisualComparison exHost [exMapping] exState =
     (Returned (),
      exState\<lparr>calls := 27, created := 12, loadedFonts := [''Regular'', ''Medium'', ''Bold''],
        selection :=
          [FrameNode ''Component Migration Visual''
             [FrameNode (''A '' @ rightArrow @ '' B'')
                [FrameNode ''OLD''
                   [TextNode ''OLD'', TextNode ''A'', TextNode notFoundText, TextNode ''Key: BAD...''],
                 TextNode downArrow,
                 FrameNode ''NEW'' [TextNode ''NEW'', TextNode ''B'', InstanceNode ''GOOD'']]]],
        viewport :=
          [FrameNode ''Component Migration Visual''
             [FrameNode (''A '' @ rightArrow @ '' B'')
                [FrameNode ''OLD''
                   [TextNode ''OLD'', TextNode ''A'', TextNode notFoundText, TextNode ''Key: BAD...''],
                 TextNode downArrow,
                 FrameNode ''NEW'' [TextNode ''NEW'', TextNode ''B'', InstanceNode ''GOOD'']]]],
        posted := [Message successText ''info'' 3000]\<rparr>)"
  by (simp add: generateVisualComparison_def try_catch_def bnd_def ret_def loadFontAsync_def
        createFrame_def createText_def appendChild_def setSelection_def scrollAndZoomIntoView_def
        postMessage_def hostCall_def buildPair_def buildSection_def tryInstance_def
        importComponentByKeyAsync_def createInstance_def formatComponentKey_def str_includes_def
        or_else_def exHost_def exMapping_def exState_def)

subsection \<open>Resolving the key of a node\<close>

text \<open>
  Claim C2, as the code has it. A component resolves to its own key. An instance
  resolves to the key of its main component when the main component is present and
  both its id and its key are non-empty strings; an instance with no main component, or
  whose main component has an empty id or an empty key, resolves to null. Every other
  kind of node resolves to null. No case raises an error.
\<close>

theorem getComponentKey_cases:
  "(ntype n = COMPONENT \<longrightarrow> getComponentKey n = Some (key n)) \<and>
   (ntype n = INSTANCE \<longrightarrow> mainComponent n = Some mc \<longrightarrow> node_id mc \<noteq> [] \<longrightarrow> key mc \<noteq> [] \<longrightarrow>
      getComponentKey n = Some (key mc)) \<and>
   (ntype n = INSTANCE \<longrightarrow>
      (mainComponent n = None \<or> (mainComponent n = Some mc \<and> (node_id mc = [] \<or> key mc = []))) \<longrightarrow>
      getComponentKey n = None) \<and>
   (ntype n \<noteq> COMPONENT \<longrightarrow> ntype n \<noteq> INSTANCE \<longrightarrow> getComponentKey n = None)"
  by (auto simp: getComponentKey_def)

theorem getComponentKey_examples:
  "getComponentKey exPlain = Some ''beef01'' \<and>
   getComponentKey exInstance = Some ''beef01'' \<and>
   getComponentKey exDetachedInstance = None \<and>
   getComponentKey exKeylessInstance = None \<and>
   getComponentKey exFrame = None"
  using getComponentKey_cases [of exPlain exPlain]
        getComponentKey_cases [of exInstance exPlain]
        getComponentKey_cases [of exDetachedInstance exPlain]
        getComponentKey_cases [of exKeylessInstance exKeylessComponent]
        getComponentKey_cases [of exFrame exPlain]
  by (simp add: exPlain_def exInstance_def exDetachedInstance_def exKeylessInstance_def
        exKeylessComponent_def exFrame_def)

text \<open>
  An instance whose main component carries the empty string as its key does not resolve
  to that key: \<^verbatim>\<open>node.mainComponent?.key || null\<close> is null there.
\<close>

theorem getComponentKey_keyless_instance:
  "ntype exKeylessInstance = INSTANCE \<and>
   mainComponent exKeylessInstance = Some exKeylessComponent \<and>
   getComponentKey exKeylessInstance = None \<and>
   getComponentKey exKeylessInstance \<noteq> Some (key exKeylessComponent)"
  by (simp add: getComponentKey_def exKeylessInstance_def exKeylessComponent_def)

subsection \<open>The label of a node\<close>

text \<open>
  Claim C3. For a component or an instance the label is its base name with the variant
  properties added by \<open>withVariantProps\<close>. The base name is the raw display name (the
  node's own name; for an instance with a main component, the main component's name)
  whenever that name contains no \<^verbatim>\<open>=\<close>. When the name contains \<^verbatim>\<open>=\<close> and the parent
  of the component (for an instance, of its main component) is a component set, the
  base name is the name of that parent.
\<close>

theorem getComponentName_base:
  "(ntype n = COMPONENT \<longrightarrow> \<not> str_includes (name n) (CHR ''='') \<longrightarrow>
      getComponentName n = withVariantProps (name n) n) \<and>
   (ntype n = INSTANCE \<longrightarrow> mainComponent n = Some mc \<longrightarrow> \<not> str_includes (name mc) (CHR ''='') \<longrightarrow>
      getComponentName n = withVariantProps (name mc) n) \<and>
   (ntype n = INSTANCE \<longrightarrow> mainComponent n = None \<longrightarrow> \<not> str_includes (name n) (CHR ''='') \<longrightarrow>
      getComponentName n = withVariantProps (name n) n) \<and>
   (ntype n = COMPONENT \<longrightarrow> str_includes (name n) (CHR ''='') \<longrightarrow>
      parent n = Some p \<longrightarrow> ntype p = COMPONENT_SET \<longrightarrow>
      getComponentName n = withVariantProps (name p) n) \<and>
   (ntype n = INSTANCE \<longrightarrow> mainComponent n = Some mc \<longrightarrow> str_includes (name mc) (CHR ''='') \<longrightarrow>
      parent mc = Some p \<longrightarrow> ntype p = COMPONENT_SET \<longrightarrow>
      getComponentName n = withVariantProps (name p) n)"
  by (simp add: getComponentName_def baseName_def displayName_def parentIsComponentSet_def
        parentName_def)

theorem getComponentName_base_examples:
  "getComponentName exPlain = ''Card'' \<and>
   getComponentName exInstance = ''Card'' \<and>
   getComponentName exDetachedInstance = ''Orphan'' \<and>
   getComponentName exVariant = ''Button|a=1, b=2'' \<and>
   getComponentName exVariantInstance = ''Button|Size=Large''"
  using getComponentName_base [of exPlain exPlain exPlain]
        getComponentName_base [of exInstance exPlain exPlain]
        getComponentName_base [of exDetachedInstance exPlain exPlain]
        getComponentName_base [of exVariant exPlain exComponentSet]
        getComponentName_base [of exVariantInstance exVariant exComponentSet]
  by (simp add: exPlain_def exInstance_def exDetachedInstance_def exVariant_def
        exVariantInstance_def exComponentSet_def withVariantProps_def variantProps_def
        str_includes_simps)

text \<open>
  Claim C4. Only a component or an instance exposes \<^verbatim>\<open>variantProperties\<close>. When the map
  of such a node has entries, the label is the base name, then \<^verbatim>\<open>|\<close>, then the entries
  as \<^verbatim>\<open>key=value\<close> joined by a comma and a space, in the order of the map's keys. When
  the map is missing or empty the label is the base name alone. The part added depends
  on the map only: two nodes with the same map get the same \<open>variantProps\<close>, whatever
  their base names are.
\<close>

theorem getComponentName_suffix:
  "(ntype n = COMPONENT \<or> ntype n = INSTANCE) \<longrightarrow>
     (variantProperties n = Some vp \<longrightarrow> vp \<noteq> [] \<longrightarrow>
        getComponentName n = baseName n @ ''|'' @ join '', '' (map (\<lambda>(k, v). k @ ''='' @ v) vp)) \<and>
     (variantProperties n = None \<or> variantProperties n = Some [] \<longrightarrow>
        getComponentName n = baseName n) \<and>
     (variantProperties n' = variantProperties n \<longrightarrow> variantProps n' = variantProps n)"
  using join_entries_nonempty [of vp "'', ''"]
  by (auto simp: getComponentName_def withVariantProps_def variantProps_def Let_def)

theorem getComponentName_suffix_examples:
  "getComponentName exVariant = ''Button|a=1, b=2'' \<and>
   baseName exVariant = ''Button'' \<and>
   getComponentName exVariantInstance = ''Button|Size=Large'' \<and>
   getComponentName exDetachedInstance = ''Orphan'' \<and>
   getComponentName exPlain = ''Card'' \<and>
   variantProps (SceneNode FRAME [] [] [] None None (variantProperties exVariant)) = ''a=1, b=2''"
  using getComponentName_suffix [of exVariant "[(''a'', ''1''), (''b'', ''2'')]"
          "SceneNode FRAME [] [] [] None None (variantProperties exVariant)"]
        getComponentName_suffix [of exVariantInstance "[(''Size'', ''Large'')]" exVariantInstance]
        getComponentName_suffix [of exDetachedInstance "[]" exDetachedInstance]
        getComponentName_suffix [of exPlain "[]" exPlain]
  by (simp add: exPlain_def exDetachedInstance_def exVariant_def
        exVariantInstance_def exComponentSet_def baseName_def displayName_def
        parentIsComponentSet_def parentName_def variantProps_def str_includes_simps)

subsection \<open>Formatting a key\<close>

text \<open>
  Claim C5. A key that contains \<^verbatim>\<open>:\<close> is returned unchanged. Otherwise, when the
  document's namespace id is available (\<^verbatim>\<open>figma.fileKey\<close> is defined and, as the test
  \<^verbatim>\<open>if (fileKey)\<close> has it, not the empty string), the result is the id, \<^verbatim>\<open>:\<close> and the
  key; when it is not available the key is returned unchanged. The function is total:
  no case raises an error.
\<close>

theorem formatComponentKey_cases:
  "(str_includes k (CHR '':'') \<longrightarrow> formatComponentKey fk k = k) \<and>
   (\<not> str_includes k (CHR '':'') \<longrightarrow> fk = Some ns \<longrightarrow> ns \<noteq> [] \<longrightarrow>
      formatComponentKey fk k = ns @ '':'' @ k) \<and>
   (\<not> str_includes k (CHR '':'') \<longrightarrow> (fk = None \<or> fk = Some []) \<longrightarrow>
      formatComponentKey fk k = k)"
  by (auto simp: formatComponentKey_def)

theorem formatComponentKey_examples:
  "\<not> str_includes ''abc123'' (CHR '':'') \<and>
   formatComponentKey (Some ''FK1'') ''abc123'' = ''FK1:abc123'' \<and>
   str_includes ''FK1:abc123'' (CHR '':'') \<and>
   formatComponentKey (Some ''ZZ9'') ''FK1:abc123'' = ''FK1:abc123'' \<and>
   formatComponentKey None ''abc123'' = ''abc123''"
  using formatComponentKey_cases [of "''abc123''" "Some ''FK1''" "''FK1''"]
        formatComponentKey_cases [of "''FK1:abc123''" "Some ''ZZ9''" "''ZZ9''"]
        formatComponentKey_cases [of "''abc123''" "None" "[]"]
  by (simp add: str_includes_simps)

subsection \<open>Import failures stay local\<close>

text \<open>
  Claim C6. For every host and every list of mappings the run returns to its caller
  without an exception, having posted one message. On a host where no call other than
  an import or an instantiation throws, the root frame it selects holds the pair blocks
  of all the mappings in the order of the list. Each pair block is \<open>pairTree\<close>: the OLD
  section, the arrow and the NEW section. Each section holds its label, its title and
  \<open>importLines\<close> of its own key only: exactly one error marker when the
  import-and-instantiate step of that key fails and none otherwise, exactly one
  instance when it succeeds and none otherwise.
\<close>

theorem import_failure_is_local:
  "(\<exists>s' m. generateVisualComparison h ms s = (Returned (), s') \<and> posted s' = posted s @ [m]) \<and>
   ((\<forall>n. \<not> throws h n) \<longrightarrow>
      selection (snd (generateVisualComparison h ms s)) =
        [FrameNode ''Component Migration Visual'' (map (pairTree h) ms)]) \<and>
   length (filter isErrorMarker (importLines h k)) = of_bool (importFails h k) \<and>
   length (filter isInstance (importLines h k)) = of_bool (importPlaces h k)"
proof -
  from generateVisualComparison_returns [of h ms s]
  have "\<exists>s' m. generateVisualComparison h ms s = (Returned (), s') \<and> posted s' = posted s @ [m]"
    by blast
  then show ?thesis
    by (simp add: generateVisualComparison_quiet(2) importLines_markers importLines_instances)
qed

theorem import_failure_is_local_example:
  "(\<forall>n. \<not> throws exHost n) \<and>
   importFails exHost (oldKey exMapping) \<and> importPlaces exHost (newKey exMapping) \<and>
   importPlaces exHost (oldKey exMapping2) \<and>
   fst (generateVisualComparison exHost [exMapping, exMapping2] exState) = Returned () \<and>
   selection (snd (generateVisualComparison exHost [exMapping, exMapping2] exState)) =
     [FrameNode ''Component Migration Visual''
        [FrameNode (''A '' @ rightArrow @ '' B'')
           [FrameNode ''OLD''
              [TextNode ''OLD'', TextNode ''A'', TextNode notFoundText, TextNode ''Key: BAD...''],
            TextNode downArrow,
            FrameNode ''NEW'' [TextNode ''NEW'', TextNode ''B'', InstanceNode ''GOOD'']],
         FrameNode (''Old '' @ rightArrow @ '' C'')
           [FrameNode ''OLD'' [TextNode ''OLD'', TextNode ''GOOD'', InstanceNode ''GOOD''],
            TextNode downArrow,
            FrameNode ''NEW'' [TextNode ''NEW'', TextNode ''C'', InstanceNode ''GOOD'']]]] \<and>
   length (filter isErrorMarker (importLines exHost ''BAD'')) = 1 \<and>
   length (filter isInstance (importLines exHost ''BAD'')) = 0 \<and>
   length (filter isErrorMarker (importLines exHost ''GOOD'')) = 0 \<and>
   length (filter isInstance (importLines exHost ''GOOD'')) = 1"
proof -
  have quiet: "\<forall>n. \<not> throws exHost n" by (simp add: exHost_def)
  note bad = import_failure_is_local [of exHost "[exMapping, exMapping2]" exState "''BAD''"]
  note good = import_failure_is_local [of exHost "[exMapping, exMapping2]" exState "''GOOD''"]
  from bad obtain s' where run:
    "generateVisualComparison exHost [exMapping, exMapping2] exState = (Returned (), s')"
    by blast
  from bad quiet have sel:
    "selection (snd (generateVisualComparison exHost [exMapping, exMapping2] exState)) =
      [FrameNode ''Component Migration Visual'' (map (pairTree exHost) [exMapping, exMapping2])]"
    by blast
  have trees: "map (pairTree exHost) [exMapping, exMapping2] =
        [FrameNode (''A '' @ rightArrow @ '' B'')
           [FrameNode ''OLD''
              [TextNode ''OLD'', TextNode ''A'', TextNode notFoundText, TextNode ''Key: BAD...''],
            TextNode downArrow,
            FrameNode ''NEW'' [TextNode ''NEW'', TextNode ''B'', InstanceNode ''GOOD'']],
         FrameNode (''Old '' @ rightArrow @ '' C'')
           [FrameNode ''OLD'' [TextNode ''OLD'', TextNode ''GOOD'', InstanceNode ''GOOD''],
            TextNode downArrow,
            FrameNode ''NEW'' [TextNode ''NEW'', TextNode ''C'', InstanceNode ''GOOD'']]]"
    by (simp add: pairTree_def sectionTree_def importLines_def failureLines_def exHost_def
          exMapping_def exMapping2_def or_else_def formatComponentKey_def str_includes_def)
  have fails: "importFails exHost ''BAD'' \<and> importPlaces exHost ''GOOD'' \<and>
      \<not> importPlaces exHost ''BAD'' \<and> \<not> importFails exHost ''GOOD''"
    by (simp add: importFails_def importPlaces_def exHost_def formatComponentKey_def
          str_includes_def)
  have keys: "oldKey exMapping = ''BAD'' \<and> newKey exMapping = ''GOOD'' \<and> oldKey exMapping2 = ''GOOD''"
    by (simp add: exMapping_def exMapping2_def)
  show ?thesis
    using quiet fails keys run sel trees bad good by simp
qed

subsection \<open>A failed setup is fatal\<close>

text \<open>
  Claim C7. The first four host calls of a run are the three font loads and the creation
  of the root frame. When one of them throws, the run still returns to its caller
  without an exception, posts the one message \<^verbatim>\<open>Failed to generate visual comparison\<close>
  with variant \<^verbatim>\<open>error\<close>, and leaves the canvas as it was: no node is created, and the
  selection and the viewport are unchanged.
\<close>

theorem generateVisualComparison_fatal:
  assumes "throws h (calls s) \<or> throws h (calls s + 1) \<or> throws h (calls s + 2) \<or>
           throws h (calls s + 3)"
  shows "\<exists>s'. generateVisualComparison h ms s = (Returned (), s') \<and>
           posted s' = posted s @ [Message failureText ''error'' 3000] \<and>
           created s' = created s \<and> selection s' = selection s \<and> viewport s' = viewport s"
proof (cases "throws h (calls s)")
  case True
  then show ?thesis
    by (simp add: generateVisualComparison_def try_catch_def bnd_def loadFontAsync_def
          hostCall_def postMessage_def)
next
  case first: False
  show ?thesis
  proof (cases "throws h (Suc (calls s))")
    case True
    with first show ?thesis
      by (simp add: generateVisualComparison_def try_catch_def bnd_def loadFontAsync_def
            hostCall_def postMessage_def)
  next
    case second: False
    show ?thesis
    proof (cases "throws h (Suc (Suc (calls s)))")
      case True
      with first second show ?thesis
        by (simp add: generateVisualComparison_def try_catch_def bnd_def loadFontAsync_def
              hostCall_def postMessage_def)
    next
      case third: False
      with first second assms have "throws h (Suc (Suc (Suc (calls s))))"
        by (simp add: numeral_3_eq_3 numeral_2_eq_2)
      with first second third show ?thesis
        by (simp add: generateVisualComparison_def try_catch_def bnd_def loadFontAsync_def
              createFrame_def hostCall_def postMessage_def)
    qed
  qed
qed

theorem generateVisualComparison_fatal_example:
  "throws (exHost\<lparr>throws := (\<lambda>n. n = 2)\<rparr>) (calls exState + 2) \<and>
   fst (generateVisualComparison (exHost\<lparr>throws := (\<lambda>n. n = 2)\<rparr>) [exMapping] exState) = Returned () \<and>
   posted (snd (generateVisualComparison (exHost\<lparr>throws := (\<lambda>n. n = 2)\<rparr>) [exMapping] exState)) =
     [Message failureText ''error'' 3000] \<and>
   created (snd (generateVisualComparison (exHost\<lparr>throws := (\<lambda>n. n = 2)\<rparr>) [exMapping] exState)) = 0 \<and>
   selection (snd (generateVisualComparison (exHost\<lparr>throws := (\<lambda>n. n = 2)\<rparr>) [exMapping] exState)) = []"
proof -
  let ?h = "exHost\<lparr>throws := (\<lambda>n. n = 2)\<rparr>"
  have third: "throws ?h (calls exState + 2)" by (simp add: exState_def)
  then have "throws ?h (calls exState) \<or> throws ?h (calls exState + 1) \<or>
      throws ?h (calls exState + 2) \<or> throws ?h (calls exState + 3)" by blast
  from generateVisualComparison_fatal [OF this, of "[exMapping]"]
  obtain s' where run: "generateVisualComparison ?h [exMapping] exState = (Returned (), s')"
    and msg: "posted s' = posted exState @ [Message failureText ''error'' 3000]"
    and same: "created s' = created exState" "selection s' = selection exState"
    by blast
  show ?thesis
    using third run msg same by (simp add: exState_def)
qed

subsection \<open>Loading the saved mappings\<close>

text \<open>
  Claim C8. When the read of client storage succeeds and the stored value is a bare
  array, \<^verbatim>\<open>loadSavedMappings\<close> posts it wrapped as the object with \<^verbatim>\<open>mappings\<close> the
  array and \<^verbatim>\<open>timestamp\<close> the clock read during the call less 604800000 milliseconds,
  which is seven days. A stored value that is not an array, such as one already of the
  shape with \<^verbatim>\<open>mappings\<close> and \<^verbatim>\<open>timestamp\<close>, is posted unchanged.
\<close>

theorem loadSavedMappings_legacy:
  "\<not> throws h (calls s) \<longrightarrow>
     (storage s ''componentMigrationMappings'' = Some (JArr xs) \<longrightarrow>
        loadSavedMappings h s =
          (Returned (),
           s\<lparr>calls := Suc (calls s),
             posted := posted s @
               [LoadedMappings
                  (JObj [(''mappings'', JArr xs), (''timestamp'', JNum (clock s - 604800000))])]\<rparr>)) \<and>
     (storage s ''componentMigrationMappings'' = Some v \<longrightarrow> \<not> isArray v \<longrightarrow>
        loadSavedMappings h s =
          (Returned (), s\<lparr>calls := Suc (calls s), posted := posted s @ [LoadedMappings v]\<rparr>)) \<and>
     isArray (JArr xs) \<and> \<not> isArray (JObj [(''mappings'', ms), (''timestamp'', JNum t)])"
  by (simp add: loadSavedMappings_def try_catch_def bnd_def getAsync_def hostCall_def
        postMessage_def isArray_def)

theorem loadSavedMappings_legacy_examples:
  "loadSavedMappings exHost (exState\<lparr>storage := (\<lambda>k. Some (JArr [JStr ''m'']))\<rparr>) =
     (Returned (),
      exState\<lparr>calls := 1,
        posted := [LoadedMappings
          (JObj [(''mappings'', JArr [JStr ''m'']), (''timestamp'', JNum 1699395200000)])],
        storage := (\<lambda>k. Some (JArr [JStr ''m'']))\<rparr>) \<and>
   loadSavedMappings exHost
       (exState\<lparr>storage := (\<lambda>k. Some (JObj [(''mappings'', JArr []), (''timestamp'', JNum 5)]))\<rparr>) =
     (Returned (),
      exState\<lparr>calls := 1,
        posted := [LoadedMappings (JObj [(''mappings'', JArr []), (''timestamp'', JNum 5)])],
        storage := (\<lambda>k. Some (JObj [(''mappings'', JArr []), (''timestamp'', JNum 5)]))\<rparr>)"
  using loadSavedMappings_legacy [of exHost "exState\<lparr>storage := (\<lambda>k. Some (JArr [JStr ''m'']))\<rparr>"
          "[JStr ''m'']" "JNull" "JNull" 0]
        loadSavedMappings_legacy [of exHost
          "exState\<lparr>storage := (\<lambda>k. Some (JObj [(''mappings'', JArr []), (''timestamp'', JNum 5)]))\<rparr>"
          "[]" "JObj [(''mappings'', JArr []), (''timestamp'', JNum 5)]" "JArr []" 5]
  by (simp add: exHost_def exState_def)




subsection \<open>Copying the key of the selection\<close>

text \<open>
  Claim C10, as the code has it. Only the first node of the selection is read. The
  reply is \<^verbatim>\<open>keyCopied\<close> with success and the key \<open>k\<close> when the first node resolves to a
  non-empty key \<open>k\<close>; it is the failure \<^verbatim>\<open>Selected node is not a component\<close> when the
  first node resolves to null or to the empty string, whatever nodes follow it; for an
  empty selection it is the failure \<^verbatim>\<open>No component selected\<close>.
\<close>

theorem copySelectedComponentKey_first:
  "copySelectedComponentKey [] s =
     (Returned (), s\<lparr>posted := posted s @ [KeyCopied False None (Some ''No component selected'')]\<rparr>) \<and>
   (getComponentKey n = Some k \<and> k \<noteq> [] \<longrightarrow>
      copySelectedComponentKey (n # rest) s =
        (Returned (), s\<lparr>posted := posted s @ [KeyCopied True (Some k) None]\<rparr>)) \<and>
   (getComponentKey n = None \<or> getComponentKey n = Some [] \<longrightarrow>
      copySelectedComponentKey (n # rest) s =
        (Returned (),
         s\<lparr>posted := posted s @ [KeyCopied False None (Some ''Selected node is not a component'')]\<rparr>))"
  by (auto simp: copySelectedComponentKey_def postMessage_def)

theorem copySelectedComponentKey_examples:
  "copySelectedComponentKey [exInstance, exFrame] exState =
     (Returned (), exState\<lparr>posted := [KeyCopied True (Some ''beef01'') None]\<rparr>) \<and>
   copySelectedComponentKey [exFrame, exPlain] exState =
     (Returned (),
      exState\<lparr>posted := [KeyCopied False None (Some ''Selected node is not a component'')]\<rparr>)"
  using copySelectedComponentKey_first [of exState exInstance "''beef01''" "[exFrame]"]
        copySelectedComponentKey_first [of exState exFrame "[]" "[exPlain]"]
  by (simp add: getComponentKey_def exInstance_def exPlain_def exFrame_def exState_def)

text \<open>
  A component whose key is the empty string resolves to that key, and the reply is the
  failure all the same: \<^verbatim>\<open>!componentKey\<close> holds of the empty string.
\<close>

theorem copySelectedComponentKey_keyless_component:
  "getComponentKey exKeylessComponent = Some (key exKeylessComponent) \<and>
   copySelectedComponentKey [exKeylessComponent] exState \<noteq>
     (Returned (), exState\<lparr>posted := [KeyCopied True (Some (key exKeylessComponent)) None]\<rparr>) \<and>
   copySelectedComponentKey [exKeylessComponent] exState =
     (Returned (),
      exState\<lparr>posted := [KeyCopied False None (Some ''Selected node is not a component'')]\<rparr>)"
  by (simp add: copySelectedComponentKey_def postMessage_def getComponentKey_def
        exKeylessComponent_def exState_def)

subsection \<open>Further properties of the generator and of persistence\<close>

text \<open>
  An empty list of mappings on such a host: the run succeeds and the root frame has no
  pair block.
\<close>

theorem generateVisualComparison_empty:
  assumes "\<forall>n. \<not> throws h n"
  shows "generateVisualComparison h [] s =
     (Returned (),
      s\<lparr>calls := calls s + 6, created := Suc (created s),
        loadedFonts := loadedFonts s @ [''Regular'', ''Medium'', ''Bold''],
        selection := [FrameNode ''Component Migration Visual'' []],
        viewport := [FrameNode ''Component Migration Visual'' []],
        posted := posted s @ [Message successText ''info'' 3000]\<rparr>)"
  using assms
  by (simp add: generateVisualComparison_def try_catch_def bnd_def ret_def loadFontAsync_def
        createFrame_def setSelection_def scrollAndZoomIntoView_def postMessage_def hostCall_def)

theorem generateVisualComparison_empty_example:
  "(\<forall>n. \<not> throws exHost n) \<and>
   generateVisualComparison exHost [] exState =
     (Returned (),
      exState\<lparr>calls := 6, created := 1, loadedFonts := [''Regular'', ''Medium'', ''Bold''],
        selection := [FrameNode ''Component Migration Visual'' []],
        viewport := [FrameNode ''Component Migration Visual'' []],
        posted := [Message successText ''info'' 3000]\<rparr>)"
proof -
  have quiet: "\<forall>n. \<not> throws exHost n" by (simp add: exHost_def)
  from generateVisualComparison_empty [OF quiet, of exState] quiet
  show ?thesis by (simp add: exState_def)
qed

text \<open>
  Saving a value that is not an array and loading it again posts the value saved, when
  neither storage call throws.
\<close>

theorem save_then_load:
  assumes "\<not> throws h (calls s)" and "\<not> throws h (Suc (calls s))" and "\<not> isArray x"
  shows "bnd (saveMappings h x) (\<lambda>_. loadSavedMappings h) s =
     (Returned (),
      s\<lparr>calls := Suc (Suc (calls s)),
        storage := (storage s)(''componentMigrationMappings'' \<mapsto> x),
        posted := posted s @ [LoadedMappings x]\<rparr>)"
  using assms
  by (simp add: saveMappings_def loadSavedMappings_def try_catch_def bnd_def setAsync_def
        getAsync_def hostCall_def postMessage_def)

theorem save_then_load_example:
  "\<not> isArray (JObj [(''mappings'', JArr [JStr ''m'']), (''timestamp'', JNum 42)]) \<and>
   fst (bnd (saveMappings exHost (JObj [(''mappings'', JArr [JStr ''m'']), (''timestamp'', JNum 42)]))
          (\<lambda>_. loadSavedMappings exHost) exState) = Returned () \<and>
   posted (snd (bnd (saveMappings exHost (JObj [(''mappings'', JArr [JStr ''m'']), (''timestamp'', JNum 42)]))
          (\<lambda>_. loadSavedMappings exHost) exState)) =
     [LoadedMappings (JObj [(''mappings'', JArr [JStr ''m'']), (''timestamp'', JNum 42)])]"
proof -
  let ?x = "JObj [(''mappings'', JArr [JStr ''m'']), (''timestamp'', JNum 42)]"
  have a: "\<not> throws exHost (calls exState)" and b: "\<not> throws exHost (Suc (calls exState))"
    by (simp_all add: exHost_def)
  have c: "\<not> isArray ?x" by (simp add: isArray_def)
  from save_then_load [OF a b c] c show ?thesis by (simp add: exState_def)
qed

text \<open>\<^verbatim>\<open>saveMappings\<close> returns whether the write throws or not; a failed write stores nothing.\<close>

theorem saveMappings_swallows:
  "saveMappings h x s =
     (Returned (),
      if throws h (calls s) then s\<lparr>calls := Suc (calls s)\<rparr>
      else s\<lparr>calls := Suc (calls s),
             storage := (storage s)(''componentMigrationMappings'' \<mapsto> x)\<rparr>)"
  by (simp add: saveMappings_def try_catch_def setAsync_def hostCall_def ret_def)

text \<open>
  When the construction of a pair block throws, the loop leaves the root frame as it
  was, sets \<^verbatim>\<open>hasErrors\<close> and goes on with the next mapping.
\<close>

theorem mappingsLoop_skips:
  assumes "fst (buildPair h m frame s) = Threw"
  shows "mappingsLoop h (m # ms) frame e s = mappingsLoop h ms frame True (snd (buildPair h m frame s))"
  using assms
  by (simp add: bnd_fst try_catch_fst ret_def)

theorem generateVisualComparison_skip_example:
  "fst (buildPair (exHost\<lparr>throws := (\<lambda>n. n = 6)\<rparr>) exMapping
          (FrameNode ''Component Migration Visual'' []) (exState\<lparr>calls := 4, created := 1\<rparr>)) = Threw \<and>
   fst (mappingsLoop (exHost\<lparr>throws := (\<lambda>n. n = 6)\<rparr>) [exMapping, exMapping2]
          (FrameNode ''Component Migration Visual'' []) False (exState\<lparr>calls := 4, created := 1\<rparr>)) =
     Returned (FrameNode ''Component Migration Visual'' [pairTree exHost exMapping2], True)"
proof -
  let ?h = "exHost\<lparr>throws := (\<lambda>n. n = 6)\<rparr>"
  let ?s = "exState\<lparr>calls := 4, created := 1\<rparr>"
  let ?f = "FrameNode ''Component Migration Visual'' []"
  have threw: "buildPair ?h exMapping ?f ?s = (Threw, ?s\<lparr>calls := 7, created := 3\<rparr>)"
    by (simp add: buildPair_def buildSection_def bnd_def createFrame_def createText_def
          appendChild_def hostCall_def exState_def exHost_def)
  then have t: "fst (buildPair ?h exMapping ?f ?s) = Threw" by simp
  have rest: "fst (mappingsLoop ?h [exMapping2] ?f True (?s\<lparr>calls := 7, created := 3\<rparr>)) =
      Returned (FrameNode ''Component Migration Visual'' [pairTree exHost exMapping2], True)"
    by (simp add: bnd_def try_catch_def ret_def buildPair_def buildSection_def tryInstance_def
          createFrame_def createText_def appendChild_def hostCall_def
          importComponentByKeyAsync_def createInstance_def formatComponentKey_def
          str_includes_def or_else_def pairTree_def sectionTree_def importLines_def
          exState_def exHost_def exMapping2_def)
  from mappingsLoop_skips [OF t, of "[exMapping2]" False] threw rest t
  show ?thesis by simp
qed

end
